theory Spec2Isabelle
  imports Complex_Main
begin

section \<open>Python strings and integers\<close>

text \<open>
  A Python \<open>str\<close> is a sequence of Unicode code points, so a string is modelled as a list
  of code points (natural numbers) and not as a list of bytes: \<open>len\<close>, \<open>strip\<close> and
  \<open>join\<close> of the source all work on code points. ASCII text is written with \<open>py\<close>; a
  character outside ASCII (the Turkish letters and the emoji of the source's literals) or
  one that cannot stand in a literal (newline \<open>10\<close>, apostrophe \<open>39\<close>) is written as its
  code point.
\<close>

type_synonym pystr = "nat list"

abbreviation py :: "string \<Rightarrow> pystr" where
  "py cs \<equiv> map of_char cs"

text \<open>\<open>str(n)\<close> for a non-negative integer: the decimal digits, most significant first.\<close>

fun str_nat :: "nat \<Rightarrow> pystr" where
  "str_nat n = (if n < 10 then [48 + n] else str_nat (n div 10) @ [48 + n mod 10])"

declare str_nat.simps [simp del]

text \<open>\<open>str(i)\<close> for a Python \<open>int\<close> (unbounded): a minus sign in front of a negative one.\<close>

definition str_int :: "int \<Rightarrow> pystr" where
  "str_int i = (if i < 0 then 45 # str_nat (nat (- i)) else str_nat (nat i))"

text \<open>
  \<open>str.isspace\<close> of one character, as CPython decides it: the ASCII whitespace
  (\<open>\t \n \v \f \r\<close>, the separators \<open>0x1C\<close> to \<open>0x1F\<close>, the space) and the Unicode
  characters of bidirectional class WS, B or S or of category Zs.
\<close>

definition isspace :: "nat \<Rightarrow> bool" where
  "isspace c \<longleftrightarrow>
     (9 \<le> c \<and> c \<le> 13) \<or> (28 \<le> c \<and> c \<le> 32) \<or> c = 0x85 \<or> c = 0xA0 \<or> c = 0x1680 \<or>
     (0x2000 \<le> c \<and> c \<le> 0x200A) \<or> c = 0x2028 \<or> c = 0x2029 \<or> c = 0x202F \<or>
     c = 0x205F \<or> c = 0x3000"

text \<open>\<open>s.strip()\<close>: leading and trailing whitespace removed.\<close>

definition strip :: "pystr \<Rightarrow> pystr" where
  "strip s = rev (dropWhile isspace (rev (dropWhile isspace s)))"

text \<open>\<open>sep.join(xs)\<close>.\<close>

fun join :: "pystr \<Rightarrow> pystr list \<Rightarrow> pystr" where
  "join sep [] = []"
| "join sep [x] = x"
| "join sep (x # y # ys) = x @ sep @ join sep (y # ys)"

text \<open>
  \<open>enumerate(xs, start)\<close> as the list of its pairs; a \<open>for\<close> loop over it is a recursion
  over this list.
\<close>

fun enumerate :: "'a list \<Rightarrow> nat \<Rightarrow> (nat \<times> 'a) list" where
  "enumerate [] start = []"
| "enumerate (x # xs) start = (start, x) # enumerate xs (Suc start)"

section \<open>Data model\<close>

text \<open>
  The dataclasses \<open>SearchResult\<close> and \<open>ResearchData\<close>. The relevance score is a Python
  \<open>float\<close> that no code of the repository computes with: it is carried as a value of a
  type parameter \<open>'f\<close>, whose \<open>0\<close> stands for the default \<open>0.0\<close>.
\<close>

record 'f SearchResult =
  title :: pystr
  url :: pystr
  content :: pystr
  score :: 'f

text \<open>
  A JSON-like value: what \<open>asdict\<close> and the dictionary literal of \<open>_save_json_data\<close>
  build, and what the free-form \<open>raw_data\<close> dictionary may hold. An object is an
  association list in insertion order, as a Python \<open>dict\<close> is.
\<close>

datatype 'f json =
    JString pystr
  | JInt int
  | JFloat 'f
  | JArray "'f json list"
  | JObject "(pystr \<times> 'f json) list"

record 'f ResearchData =
  topic :: pystr
  timestamp :: pystr
  trend_results :: "'f SearchResult list"
  problem_results :: "'f SearchResult list"
  question_results :: "'f SearchResult list"
  analysis :: pystr
  raw_data :: "(pystr \<times> 'f json) list"

text \<open>
  An exception object that is an instance of \<open>Exception\<close>, the class both handlers of
  the source catch (\<open>except Exception as e\<close>): its class name and its \<open>str(e)\<close>.
\<close>

datatype pyexception = PyException (exc_class: pystr) (exc_str: pystr)

text \<open>The exceptions Python itself raises in the modelled code.\<close>

definition AttributeError :: "pystr \<Rightarrow> pystr \<Rightarrow> pyexception" where
  "AttributeError ty attr =
     PyException (py ''AttributeError'')
       ([39] @ ty @ [39] @ py '' object has no attribute '' @ [39] @ attr @ [39])"

definition TypeError_not_iterable :: "pystr \<Rightarrow> pyexception" where
  "TypeError_not_iterable ty =
     PyException (py ''TypeError'') ([39] @ ty @ [39] @ py '' object is not iterable'')"

definition KeyError :: "pystr \<Rightarrow> pyexception" where
  "KeyError k = PyException (py ''KeyError'') ([39] @ k @ [39])"

text \<open>\<open>d[k]\<close> on a dictionary: the value, or \<open>KeyError\<close>.\<close>

definition getitem :: "(pystr \<times> 'v) list \<Rightarrow> pystr \<Rightarrow> pyexception + 'v" where
  "getitem d k = (case map_of d k of None \<Rightarrow> Inl (KeyError k) | Some v \<Rightarrow> Inr v)"

text \<open>\<open>d.get(k, default)\<close>, on the result of looking \<open>k\<close> up.\<close>

definition get_default :: "'v option \<Rightarrow> 'v \<Rightarrow> 'v" where
  "get_default v dflt = (case v of None \<Rightarrow> dflt | Some x \<Rightarrow> x)"

section \<open>External collaborators\<close>

text \<open>
  What a provider call does: it returns a value or raises. The Search Provider's answer
  is a parsed JSON document, so its shape is not fixed by any type of the source: the
  model keeps the shapes that the code treats differently. A response is a dictionary
  (with or without a \<open>results\<close> key) or some other object, named by its type, on which
  \<open>.get\<close> raises; the value under \<open>results\<close> is a list of items or an object that cannot
  be iterated; an item is a dictionary, each of its four keys present or not, or some
  other object. Values present under the four keys have the types the dataclass
  declares.
\<close>

datatype 'a outcome = Returns 'a | Raises pyexception

datatype 'f item =
    is_ItemDict: ItemDict (item_title: "pystr option") (item_url: "pystr option")
      (item_content: "pystr option") (item_score: "'f option")
  | ItemOther pystr

datatype 'f results_value = ResultsList "'f item list" | ResultsOther pystr

datatype 'f response = ResponseDict "'f results_value option" | ResponseOther pystr

text \<open>The LLM Provider's answer: an object whose \<open>text\<close> is a string or \<open>None\<close>.\<close>

datatype llm_response = GenerateContentResponse (response_text: "pystr option")

text \<open>
  A provider call as the source issues it:
  \<open>tavily_client.search(query, search_depth, max_results, include_raw_content)\<close> and
  \<open>gemini_client.models.generate_content(model, contents)\<close>.
\<close>

datatype request =
    Search pystr pystr int bool
  | GenerateContent pystr pystr


text \<open>
  The agent object: the configured model identifier and the two clients. The providers
  are outside the program and keep state of their own, so a client's answer is a function
  of the call and of the history: the list of all provider calls made so far, oldest
  first. Every function that calls a provider takes the history and returns it extended
  by the calls it made; this history is also the record of which calls a run has issued.
  Logging and console output are not modelled.
\<close>

record 'f ResearchAgent =
  model :: pystr
  tavily_client :: "request list \<Rightarrow> pystr \<Rightarrow> pystr \<Rightarrow> int \<Rightarrow> bool \<Rightarrow> 'f response outcome"
  gemini_client :: "request list \<Rightarrow> pystr \<Rightarrow> pystr \<Rightarrow> llm_response outcome"

definition ANALYSIS_SYSTEM_PROMPT :: pystr where
  "ANALYSIS_SYSTEM_PROMPT =
     py ''Sen bir '' @ [0xFC] @ py ''r'' @ [0xFC] @ py ''n geli'' @ [0x15F] @ py ''tirme dan'' @
     [0x131, 0x15F] @ py ''man'' @ [0x131] @ py ''s'' @ [0x131] @ py ''n ve pazar ara'' @
     [0x15F] @ py ''t'' @ [0x131] @ py ''rmas'' @ [0x131] @ py '' uzman'' @ [0x131] @ py ''s'' @
     [0x131] @ py ''n.'' @ [10] @
     [10] @
     py ''Sana verilen arama sonu'' @ [0xE7] @ py ''lar'' @ [0x131] @ py ''n'' @ [0x131] @
     py '' dikkatlice analiz et ve '' @ [0x15F] @ py ''u ba'' @ [0x15F] @ py ''l'' @ [0x131] @
     py ''klar alt'' @ [0x131] @ py ''nda detayl'' @ [0x131] @ py '' bir rapor haz'' @ [0x131] @
     py ''rla:'' @ [10] @
     [10] @
     py ''## '' @ [0x1F4C8] @ py '' Y'' @ [0xFC] @ py ''kselen Trendler'' @ [10] @
     py ''Bu alandaki g'' @ [0xFC] @ py ''ncel ve y'' @ [0xFC] @
     py ''kselen trendleri listele. Hangi teknolojiler, yakla'' @ [0x15F, 0x131] @
     py ''mlar veya '' @ [0xE7, 0xF6] @ py ''z'' @ [0xFC] @ py ''mler pop'' @ [0xFC] @
     py ''lerlik kazan'' @ [0x131] @ py ''yor?'' @ [10] @
     [10] @
     py ''## '' @ [0x1F624] @ py '' Kullan'' @ [0x131] @ py ''c'' @ [0x131] @ py '' '' @
     [0x15E] @ py ''ikayetleri ve Ac'' @ [0x131] @ py '' Noktalar'' @ [0x131] @
     py '' (Pain Points)'' @ [10] @
     [0x130] @ py ''nsanlar'' @ [0x131] @ py ''n bu konuyla ilgili en '' @ [0xE7] @
     py ''ok neyi zor buldu'' @ [0x11F] @ py ''unu, neden '' @ [0x15F] @ py ''ikayet etti'' @
     [0x11F] @ py ''ini ve hangi sorunlarla kar'' @ [0x15F, 0x131] @ py ''la'' @ [0x15F] @
     py ''t'' @ [0x131, 0x11F, 0x131] @ py ''n'' @ [0x131] @ py '' belirt. '' @ [10] @
     py ''Spesifik '' @ [0xF6] @ py ''rnekler ve al'' @ [0x131] @ py ''nt'' @ [0x131] @
     py ''lar varsa onlar'' @ [0x131] @ py '' da ekle.'' @ [10] @
     [10] @
     py ''## '' @ [0x1F4A1] @ py '' F'' @ [0x131] @ py ''rsat Alanlar'' @ [0x131] @ [10] @
     py ''Bu sorunlara '' @ [0xE7, 0xF6] @ py ''z'' @ [0xFC] @ py ''m olabilecek potansiyel '' @
     [0xFC] @ py ''r'' @ [0xFC] @ py ''n veya hizmet f'' @ [0x131] @ py ''rsatlar'' @ [0x131] @
     py ''n'' @ [0x131] @ py '' belirle.'' @ [10] @
     py ''Hangi bo'' @ [0x15F] @ py ''luklar doldurulabilir? Hangi ihtiya'' @ [0xE7] @
     py ''lar kar'' @ [0x15F, 0x131] @ py ''lanmam'' @ [0x131, 0x15F] @ py ''?'' @ [10] @
     [10] @
     py ''## '' @ [0x1F3AF] @ py '' '' @ [0xD6] @ py ''neriler'' @ [10] @
     py ''Bir giri'' @ [0x15F] @ py ''imci veya '' @ [0xFC] @ py ''r'' @ [0xFC] @ py ''n geli'' @
     [0x15F] @ py ''tirici olarak bu bilgilerden nas'' @ [0x131] @ py ''l yararlan'' @ [0x131] @
     py ''labilir? '' @ [10] @
     py ''3-5 maddelik aksiyon '' @ [0xF6] @ py ''nerileri sun.'' @ [10] @
     [10] @
     py ''Raporunu T'' @ [0xFC] @ py ''rk'' @ [0xE7] @
     py ''e olarak, profesyonel ve okunabilir bir formatta haz'' @ [0x131] @ py ''rla.'' @ [10] @
     py ''Maddeler halinde, emoji kullanarak ve net bir dille yaz.''"

section \<open>Query Planner\<close>

text \<open>
  \<open>_generate_queries\<close>. The source reads the year from the clock
  (\<open>datetime.now().year\<close>); the year read is the parameter \<open>current_year\<close>. The result
  is the dictionary literal, as an association list in the order written.
\<close>

definition generate_queries :: "pystr \<Rightarrow> int \<Rightarrow> (pystr \<times> pystr) list" where
  "generate_queries tp current_year =
     [(py ''trend'', tp @ py '' latest trends news '' @ str_int current_year),
      (py ''problem'',
         py ''site:reddit.com '' @ tp @
         py '' 'struggling with' OR 'hate' OR 'hard to' OR 'problem with'' @ [39]),
      (py ''question'', tp @ py '' how to fix OR alternative to OR best solution for'')]"

section \<open>Aggregator\<close>

text \<open>
  The body of the loop of \<open>_execute_search\<close>: one item becomes one \<open>SearchResult\<close>, a
  missing key replaced by its default; \<open>item.get\<close> raises on an item that is no
  dictionary.
\<close>

fun search_result_of :: "'f::zero item \<Rightarrow> pyexception + 'f SearchResult" where
  "search_result_of (ItemDict t u c s) =
     Inr \<lparr>title = get_default t [], url = get_default u [],
          content = get_default c [], score = get_default s 0\<rparr>"
| "search_result_of (ItemOther ty) = Inl (AttributeError ty (py ''get''))"

text \<open>The loop: \<open>results\<close> grows by one appended result per item, in the order of the items.\<close>

fun collect_results ::
  "'f::zero item list \<Rightarrow> 'f SearchResult list \<Rightarrow> pyexception + 'f SearchResult list" where
  "collect_results [] results = Inr results"
| "collect_results (item # items) results =
     (case search_result_of item of
        Inl e \<Rightarrow> Inl e
      | Inr r \<Rightarrow> collect_results items (results @ [r]))"

text \<open>\<open>response.get("results", [])\<close>, then the start of the iteration over it.\<close>

fun response_results :: "'f response \<Rightarrow> pyexception + 'f item list" where
  "response_results (ResponseOther ty) = Inl (AttributeError ty (py ''get''))"
| "response_results (ResponseDict None) = Inr []"
| "response_results (ResponseDict (Some (ResultsOther ty))) = Inl (TypeError_not_iterable ty)"
| "response_results (ResponseDict (Some (ResultsList items))) = Inr items"

text \<open>The \<open>try\<close> block of \<open>_execute_search\<close>: the results, or the exception raised in it.\<close>

definition execute_search_try ::
  "'f::zero ResearchAgent \<Rightarrow> pystr \<Rightarrow> int \<Rightarrow> request list \<Rightarrow>
   pyexception + 'f SearchResult list" where
  "execute_search_try self query max_results h =
     (case tavily_client self h query (py ''advanced'') max_results False of
        Raises e \<Rightarrow> Inl e
      | Returns response \<Rightarrow>
          (case response_results response of
             Inl e \<Rightarrow> Inl e
           | Inr items \<Rightarrow> collect_results items []))"

text \<open>
  \<open>_execute_search\<close>: the handler turns every exception of the block into \<open>[]\<close>. The
  call is part of the history whether it returned or raised.
\<close>

definition execute_search ::
  "'f::zero ResearchAgent \<Rightarrow> pystr \<Rightarrow> int \<Rightarrow> request list \<Rightarrow>
   'f SearchResult list \<times> request list" where
  "execute_search self query max_results h =
     (case execute_search_try self query max_results h of
        Inl e \<Rightarrow> []
      | Inr results \<Rightarrow> results,
      h @ [Search query (py ''advanced'') max_results False])"

section \<open>Content Normalizer\<close>

text \<open>
  \<open>_prepare_content_for_analysis\<close>. Its three loops differ only in the label of the
  entries, which is the parameter \<open>label\<close> of the one
  loop function here: each result appends three strings to \<open>sections\<close>.
\<close>

fun append_entries ::
  "pystr \<Rightarrow> (nat \<times> 'f SearchResult) list \<Rightarrow> pystr list \<Rightarrow> pystr list" where
  "append_entries label [] sections = sections"
| "append_entries label ((i, result) # rest) sections =
     append_entries label rest
       (sections @
        [[10] @ py ''['' @ label @ py '' '' @ str_nat i @ py ''] '' @ title result,
         py ''Kaynak: '' @ url result,
         [0x130, 0xE7] @ py ''erik: '' @ content result @ [10]])"

definition prepare_content_for_analysis :: "'f ResearchData \<Rightarrow> pystr" where
  "prepare_content_for_analysis data =
     (let sections = [];
          sections =
            (if trend_results data \<noteq> [] then
               append_entries (py ''Trend'') (enumerate (trend_results data) 1)
                 (sections @ [py ''=== TREND VE HABER SONU'' @ [0xC7] @ py ''LARI ===''])
             else sections);
          sections =
            (if problem_results data \<noteq> [] then
               append_entries ([0x15E] @ py ''ikayet'') (enumerate (problem_results data) 1)
                 (sections @
                  [[10] @ py ''=== SORUN VE '' @ [0x15E, 0x130] @ py ''KAYET SONU'' @ [0xC7] @
                   py ''LARI (Reddit/Forum) ===''])
             else sections);
          sections =
            (if question_results data \<noteq> [] then
               append_entries (py ''Soru'') (enumerate (question_results data) 1)
                 (sections @
                  [[10] @ py ''=== SORU VE '' @ [0xC7, 0xD6] @ py ''Z'' @ [0xDC] @
                   py ''M ARAMA SONU'' @ [0xC7] @ py ''LARI ===''])
             else sections)
      in join [10] sections)"

section \<open>Synthesizer\<close>

text \<open>The prompt that \<open>_analyze_with_llm\<close> builds from the topic and the content.\<close>

definition llm_prompt :: "pystr \<Rightarrow> pystr \<Rightarrow> pystr" where
  "llm_prompt cont tp =
       ANALYSIS_SYSTEM_PROMPT @
       [10] @
       [10] @
       py ''---'' @ [10] @
       [10] @
       py ''Ara'' @ [0x15F] @ py ''t'' @ [0x131] @ py ''r'' @ [0x131] @ py ''lan Konu: '' @
       tp @
       [10] @
       [10] @
       py ''A'' @ [0x15F] @ py ''a'' @ [0x11F, 0x131] @ py ''da bu konu hakk'' @ [0x131] @
       py ''nda toplanan arama sonu'' @ [0xE7] @ py ''lar'' @ [0x131] @ py '' bulunmaktad'' @
       [0x131] @ py ''r. '' @ [10] @
       py ''L'' @ [0xFC] @ py ''tfen bunlar'' @ [0x131] @ py '' analiz et ve yukar'' @ [0x131] @
       py ''daki formatta bir rapor haz'' @ [0x131] @ py ''rla.'' @ [10] @
       [10] @
       cont"

text \<open>
  The \<open>try\<close> block of \<open>_analyze_with_llm\<close>: one call of the LLM Provider, then
  \<open>response.text.strip()\<close>, which raises when \<open>text\<close> is \<open>None\<close>.
\<close>

definition analyze_with_llm_try ::
  "'f ResearchAgent \<Rightarrow> pystr \<Rightarrow> pystr \<Rightarrow> request list \<Rightarrow> pyexception + pystr" where
  "analyze_with_llm_try self cont tp h =
     (case gemini_client self h (model self) (llm_prompt cont tp) of
        Raises e \<Rightarrow> Inl e
      | Returns response \<Rightarrow>
          (case response_text response of
             None \<Rightarrow> Inl (AttributeError (py ''NoneType'') (py ''strip''))
           | Some t \<Rightarrow> Inr (strip t)))"

text \<open>\<open>_analyze_with_llm\<close>: the handler turns every exception of the block into a message.\<close>

definition analyze_with_llm ::
  "'f ResearchAgent \<Rightarrow> pystr \<Rightarrow> pystr \<Rightarrow> request list \<Rightarrow> pystr \<times> request list" where
  "analyze_with_llm self cont tp h =
     (case analyze_with_llm_try self cont tp h of
        Inl e \<Rightarrow>
          py ''Analiz s'' @ [0x131] @ py ''ras'' @ [0x131] @ py ''nda bir hata olu'' @ [0x15F] @
          py ''tu: '' @ exc_str e
      | Inr a \<Rightarrow> a,
      h @ [GenerateContent (model self) (llm_prompt cont tp)])"

section \<open>Report Assembler\<close>

text \<open>\<open>_format_url_list\<close>: the loop appends one line per result to \<open>lines\<close>.\<close>

fun append_links :: "'f SearchResult list \<Rightarrow> pystr list \<Rightarrow> pystr list" where
  "append_links [] lines = lines"
| "append_links (result # rest) lines =
     append_links rest (lines @ [py ''- ['' @ title result @ py '']('' @ url result @ py '')''])"

definition format_url_list :: "'f SearchResult list \<Rightarrow> pystr" where
  "format_url_list results =
     (if results = [] then py ''- Sonu'' @ [0xE7] @ py '' bulunamad'' @ [0x131]
      else join [10] (append_links results []))"

text \<open>
  The document form: \<open>report_content\<close> of \<open>_save_markdown_report\<close>, the text that the
  function writes. The file name, built from the clock, and the write itself are the
  persistence collaborator's part and are not modelled.
\<close>

definition report_content :: "'f ResearchData \<Rightarrow> pystr" where
  "report_content data =
     py ''# '' @ [0x1F50D] @ py '' Pazar Ara'' @ [0x15F] @ py ''t'' @ [0x131] @
     py ''rma Raporu'' @ [10] @
     [10] @
     py ''**Konu:** '' @
     topic data @
     py ''  '' @ [10] @
     py ''**Tarih:** '' @
     timestamp data @
     py ''  '' @ [10] @
     py ''**Olu'' @ [0x15F] @ py ''turan:** Market & Trend Research Agent'' @ [10] @
     [10] @
     py ''---'' @ [10] @
     [10] @
     analysis data @
     [10] @
     [10] @
     py ''---'' @ [10] @
     [10] @
     py ''## '' @ [0x1F4CA] @ py '' Ara'' @ [0x15F] @ py ''t'' @ [0x131] @ py ''rma '' @
     [0x130] @ py ''statistikleri'' @ [10] @
     [10] @
     py ''| Kategori | Sonu'' @ [0xE7] @ py '' Say'' @ [0x131] @ py ''s'' @ [0x131] @ py '' |'' @
     [10] @
     py ''|----------|--------------|'' @ [10] @
     py ''| Trend Sonu'' @ [0xE7] @ py ''lar'' @ [0x131] @ py '' | '' @
     str_nat (length (trend_results data)) @
     py '' |'' @ [10] @
     py ''| Sorun/'' @ [0x15E] @ py ''ikayet Sonu'' @ [0xE7] @ py ''lar'' @ [0x131] @ py '' | '' @
     str_nat (length (problem_results data)) @
     py '' |'' @ [10] @
     py ''| Soru/'' @ [0xC7, 0xF6] @ py ''z'' @ [0xFC] @ py ''m Sonu'' @ [0xE7] @ py ''lar'' @
     [0x131] @ py '' | '' @
     str_nat (length (question_results data)) @
     py '' |'' @ [10] @
     py ''| **Toplam** | **'' @
     str_nat (length (trend_results data) + length (problem_results data) +
              length (question_results data)) @
     py ''** |'' @ [10] @
     [10] @
     py ''---'' @ [10] @
     [10] @
     py ''## '' @ [0x1F517] @ py '' Kaynak URL'leri'' @ [10] @
     [10] @
     py ''### Trend Kaynaklar'' @ [0x131] @ [10] @
     format_url_list (trend_results data) @
     [10] @
     [10] @
     py ''### Sorun/'' @ [0x15E] @ py ''ikayet Kaynaklar'' @ [0x131] @ [10] @
     format_url_list (problem_results data) @
     [10] @
     [10] @
     py ''### Soru/'' @ [0xC7, 0xF6] @ py ''z'' @ [0xFC] @ py ''m Kaynaklar'' @ [0x131] @ [10] @
     format_url_list (question_results data) @
     [10] @
     [10] @
     py ''---'' @ [10] @
     [10] @
     py ''*Bu rapor, Market & Trend Research Agent taraf'' @ [0x131] @
     py ''ndan otomatik olarak olu'' @ [0x15F] @ py ''turulmu'' @ [0x15F] @ py ''tur.*'' @ [10]"

text \<open>\<open>dataclasses.asdict\<close> of a \<open>SearchResult\<close>.\<close>

definition asdict :: "'f SearchResult \<Rightarrow> 'f json" where
  "asdict r =
     JObject [(py ''title'', JString (title r)), (py ''url'', JString (url r)),
              (py ''content'', JString (content r)), (py ''score'', JFloat (score r))]"

text \<open>The data form: \<open>json_data\<close> of \<open>_save_json_data\<close>, the value that the function dumps.\<close>

definition json_data :: "'f ResearchAgent \<Rightarrow> 'f ResearchData \<Rightarrow> 'f json" where
  "json_data self data =
     JObject
       [(py ''topic'', JString (topic data)),
        (py ''timestamp'', JString (timestamp data)),
        (py ''trend_results'', JArray (map asdict (trend_results data))),
        (py ''problem_results'', JArray (map asdict (problem_results data))),
        (py ''question_results'', JArray (map asdict (question_results data))),
        (py ''analysis'', JString (analysis data)),
        (py ''metadata'',
           JObject
             [(py ''model_used'', JString (model self)),
              (py ''total_results'',
                 JInt (int (length (trend_results data)) +
                       int (length (problem_results data)) +
                       int (length (question_results data))))])]"

section \<open>The pipeline\<close>

text \<open>
  What a run of \<open>research\<close> leaves: the record it returns, the history of provider calls,
  and the two forms it wrote when \<open>save_files\<close> is set.
\<close>

record 'f research_run =
  run_data :: "'f ResearchData"
  run_requests :: "request list"
  run_files :: "(pystr \<times> 'f json) option"

definition insufficient_data :: pystr where
  "insufficient_data =
     [0xDC] @ py ''zg'' @ [0xFC] @ py ''n'' @ [0xFC] @ py ''z, bu konu hakk'' @ [0x131] @
     py ''nda yeterli veri bulunamad'' @ [0x131] @ py ''.''"

text \<open>
  \<open>research\<close>. The clock reads of the source are parameters: \<open>now_str\<close> is the formatted
  \<open>datetime.now()\<close> of the record's timestamp and \<open>current_year\<close> the year that
  \<open>_generate_queries\<close> reads. \<open>h\<close> is the history of provider calls before the run. The
  three subscripts \<open>queries[...]\<close> can raise \<open>KeyError\<close>, which nothing in \<open>research\<close>
  catches, so the result is an exception or a run. The parameter \<open>output_dir\<close> only
  names the directory of the two files and is left out, and the report printed on the
  console is not modelled.
\<close>

definition research ::
  "'f::zero ResearchAgent \<Rightarrow> pystr \<Rightarrow> int \<Rightarrow> bool \<Rightarrow> pystr \<Rightarrow> int \<Rightarrow> request list \<Rightarrow>
   pyexception + 'f research_run" where
  "research self tp max_results_per_query save_files now_str current_year h =
     (let data = \<lparr>topic = tp, timestamp = now_str, trend_results = [],
                  problem_results = [], question_results = [], analysis = [],
                  raw_data = []\<rparr>;
          queries = generate_queries tp current_year
      in case getitem queries (py ''trend'') of
           Inl e \<Rightarrow> Inl e
         | Inr q_trend \<Rightarrow>
      (let (results, h) = execute_search self q_trend max_results_per_query h;
           data = data\<lparr>trend_results := results\<rparr>
       in case getitem queries (py ''problem'') of
            Inl e \<Rightarrow> Inl e
          | Inr q_problem \<Rightarrow>
      (let (results, h) = execute_search self q_problem max_results_per_query h;
           data = data\<lparr>problem_results := results\<rparr>
       in case getitem queries (py ''question'') of
            Inl e \<Rightarrow> Inl e
          | Inr q_question \<Rightarrow>
      (let (results, h) = execute_search self q_question max_results_per_query h;
           data = data\<lparr>question_results := results\<rparr>;
           cont = prepare_content_for_analysis data;
           (data, h) =
             (if strip cont = [] then (data\<lparr>analysis := insufficient_data\<rparr>, h)
              else (let (a, h) = analyze_with_llm self cont tp h
                    in (data\<lparr>analysis := a\<rparr>, h)))
       in Inr \<lparr>run_data = data, run_requests = h,
               run_files =
                 (if save_files then Some (report_content data, json_data self data)
                  else None)\<rparr>))))"

section \<open>The Normalizer as the specification words it\<close>

text \<open>
  The specification's description of \<open>normalize\<close>, written down independently of the
  loops of the source, to be compared with \<open>prepare_content_for_analysis\<close>: an entry is
  the 1-based index, the title, the source URL and the content snippet, in this order; a
  section is its header followed by the entries of its bucket, and nothing at all when
  the bucket is empty; the text is the trend, the problem and the question section, in
  this order, joined by newlines.
\<close>

definition spec_entry :: "pystr \<Rightarrow> nat \<Rightarrow> 'f SearchResult \<Rightarrow> pystr list" where
  "spec_entry label i r =
     [[10] @ py ''['' @ label @ py '' '' @ str_nat i @ py ''] '' @ title r,
      py ''Kaynak: '' @ url r,
      [0x130, 0xE7] @ py ''erik: '' @ content r @ [10]]"

definition spec_section :: "pystr \<Rightarrow> pystr \<Rightarrow> 'f SearchResult list \<Rightarrow> pystr list" where
  "spec_section header label rs =
     (if rs = [] then []
      else header # concat (map (\<lambda>k. spec_entry label (Suc k) (rs ! k)) [0..<length rs]))"

definition spec_normalize :: "'f ResearchData \<Rightarrow> pystr" where
  "spec_normalize data =
     join [10]
       (spec_section (py ''=== TREND VE HABER SONU'' @ [0xC7] @ py ''LARI ==='')
          (py ''Trend'') (trend_results data) @
        spec_section
          ([10] @ py ''=== SORUN VE '' @ [0x15E, 0x130] @ py ''KAYET SONU'' @ [0xC7] @
           py ''LARI (Reddit/Forum) ==='')
          ([0x15E] @ py ''ikayet'') (problem_results data) @
        spec_section
          ([10] @ py ''=== SORU VE '' @ [0xC7, 0xD6] @ py ''Z'' @ [0xDC] @
           py ''M ARAMA SONU'' @ [0xC7] @ py ''LARI ==='')
          (py ''Soru'') (question_results data))"

section \<open>Reading the data form\<close>

text \<open>\<open>obj[k]\<close> on a JSON value, as a reader of the dumped file looks a key up.\<close>

fun jfield :: "'f json \<Rightarrow> pystr \<Rightarrow> 'f json option" where
  "jfield (JObject kvs) k = map_of kvs k"
| "jfield (JString s) k = None"
| "jfield (JInt i) k = None"
| "jfield (JFloat x) k = None"
| "jfield (JArray xs) k = None"

section \<open>Concrete inputs\<close>

text \<open>
  The scenario of the specification's testable properties: the topic is
  \<open>home coffee roasting\<close>; the Search Provider answers the first call of the run with two
  hits (the second without content and score), fails on the second call, and answers any
  later call with three hits, one of them twice and the scores not in descending order;
  the LLM Provider returns a report with whitespace around it.
\<close>

definition scenario_agent :: "real ResearchAgent" where
  "scenario_agent =
     \<lparr>model = py ''gemini-2.5-flash'',
      tavily_client = (\<lambda>h query depth n raw.
         if length h = 0 then
           Returns (ResponseDict (Some (ResultsList
             [ItemDict (Some (py ''Roasting in 2026'')) (Some (py ''https://a.example/1''))
                (Some (py ''New roasters'')) (Some 0.9),
              ItemDict (Some (py ''Bean prices'')) (Some (py ''https://a.example/2''))
                None None])))
         else if length h = 1 then
           Raises (PyException (py ''TimeoutError'') (py ''timed out''))
         else
           Returns (ResponseDict (Some (ResultsList
             [ItemDict (Some (py ''Fix uneven roast'')) (Some (py ''https://b.example/1''))
                (Some (py ''Stir more'')) (Some 0.8),
              ItemDict (Some (py ''Popcorn popper'')) (Some (py ''https://b.example/2''))
                (Some []) (Some 0.7),
              ItemDict (Some (py ''Fix uneven roast'')) (Some (py ''https://b.example/1''))
                (Some (py ''Stir more'')) (Some 0.8)])))),
      gemini_client = (\<lambda>h m prompt.
         Returns (GenerateContentResponse (Some (py '' four sections '' @ [10]))))\<rparr>"

text \<open>An agent whose providers both fail on every call.\<close>

definition offline_agent :: "real ResearchAgent" where
  "offline_agent =
     \<lparr>model = py ''gemini-2.5-flash'',
      tavily_client = (\<lambda>h query depth n raw.
         Raises (PyException (py ''ConnectionError'') (py ''network unreachable''))),
      gemini_client = (\<lambda>h m prompt.
         Raises (PyException (py ''ResourceExhausted'') (py ''quota exceeded'')))\<rparr>"

text \<open>A record with two trend results, no problem result and one question result.\<close>

definition example_data :: "real ResearchData" where
  "example_data =
     \<lparr>topic = py ''home coffee roasting'', timestamp = py ''2026-11-04 12:00:00'',
      trend_results =
        [\<lparr>title = py ''Roasting in 2026'', url = py ''https://a.example/1'',
          content = py ''New roasters'', score = 0.9\<rparr>,
         \<lparr>title = py ''Bean prices'', url = py ''https://a.example/2'',
          content = [], score = 0\<rparr>],
      problem_results = [],
      question_results =
        [\<lparr>title = py ''Fix uneven roast'', url = py ''https://b.example/1'',
          content = py ''Stir more'', score = 0.8\<rparr>],
      analysis = py ''four sections'', raw_data = []\<rparr>"


text \<open>A record without any result.\<close>

definition empty_data :: "real ResearchData" where
  "empty_data =
     \<lparr>topic = py ''x'', timestamp = [], trend_results = [], problem_results = [],
      question_results = [], analysis = [], raw_data = []\<rparr>"

section \<open>Properties of the string functions\<close>

lemma str_nat_not_Nil: "str_nat n \<noteq> []"
  by (subst str_nat.simps) simp

lemma last_str_nat: "last (str_nat n) = 48 + n mod 10"
  by (subst str_nat.simps) (simp add: str_nat_not_Nil)

lemma str_int_not_Nil: "str_int i \<noteq> []"
  by (simp add: str_int_def str_nat_not_Nil)

lemma last_str_int_digit: "48 \<le> last (str_int i) \<and> last (str_int i) \<le> 57"
proof -
  have "last (str_int i) = 48 + nat \<bar>i\<bar> mod 10"
    by (simp add: str_int_def str_nat_not_Nil last_str_nat)
  moreover have "nat \<bar>i\<bar> mod 10 < 10" by simp
  ultimately show ?thesis by linarith
qed



text \<open>
  A text occurs in a concatenation: the two steps by which an occurrence is found in a
  chain of appended pieces.
\<close>

lemma occurs_skip:
  "\<exists>pre post. ys = pre @ T @ post \<Longrightarrow> \<exists>pre post. x @ ys = pre @ T @ post"
proof -
  assume "\<exists>pre post. ys = pre @ T @ post"
  then obtain pre post where "ys = pre @ T @ post" by blast
  then have "x @ ys = (x @ pre) @ T @ post" by simp
  then show ?thesis by blast
qed

lemma occurs_here: "\<exists>post. ys = T @ post \<Longrightarrow> \<exists>pre post. ys = pre @ T @ post"
  by (metis append_Nil)

section \<open>Query Planner: the three queries\<close>

lemma trend_query_last:
  "48 \<le> last (tp @ py '' latest trends news '' @ str_int y) \<and>
   last (tp @ py '' latest trends news '' @ str_int y) \<le> 57"
  using last_str_int_digit [of y] by (simp add: str_int_not_Nil)

lemma trend_neq_problem:
  "tp @ py '' latest trends news '' @ str_int y \<noteq>
   py ''site:reddit.com '' @ tp @
   py '' 'struggling with' OR 'hate' OR 'hard to' OR 'problem with'' @ [39]"
proof
  assume eq: "tp @ py '' latest trends news '' @ str_int y =
    py ''site:reddit.com '' @ tp @
    py '' 'struggling with' OR 'hate' OR 'hard to' OR 'problem with'' @ [39]"
  have "last (py ''site:reddit.com '' @ tp @
    py '' 'struggling with' OR 'hate' OR 'hard to' OR 'problem with'' @ [39]) = 39"
    by simp
  with eq have "last (tp @ py '' latest trends news '' @ str_int y) = 39" by simp
  with trend_query_last [of tp y] show False by simp
qed

lemma trend_neq_question:
  "tp @ py '' latest trends news '' @ str_int y \<noteq>
   tp @ py '' how to fix OR alternative to OR best solution for''"
  by simp

lemma problem_neq_question:
  "py ''site:reddit.com '' @ tp @
   py '' 'struggling with' OR 'hate' OR 'hard to' OR 'problem with'' @ [39] \<noteq>
   tp @ py '' how to fix OR alternative to OR best solution for''"
proof
  assume eq: "py ''site:reddit.com '' @ tp @
    py '' 'struggling with' OR 'hate' OR 'hard to' OR 'problem with'' @ [39] =
    tp @ py '' how to fix OR alternative to OR best solution for''"
  have "last (py ''site:reddit.com '' @ tp @
    py '' 'struggling with' OR 'hate' OR 'hard to' OR 'problem with'' @ [39]) = 39"
    by simp
  moreover have "last (tp @ py '' how to fix OR alternative to OR best solution for'') = 114"
    by simp
  ultimately show False using eq by simp
qed

text \<open>
  Claim C5. For every non-empty topic and every current year, the Query Planner returns
  exactly three queries, keyed \<open>trend\<close>, \<open>problem\<close> and \<open>question\<close> in this order; the
  three query strings are pairwise distinct and none is empty; and the result is
  determined by the topic and the year alone: equal topics and equal years give equal
  query sets.
\<close>

theorem generate_queries_three_distinct:
  assumes "tp \<noteq> []"
  shows "map fst (generate_queries tp y) = [py ''trend'', py ''problem'', py ''question'']
    \<and> length (generate_queries tp y) = 3
    \<and> distinct (map snd (generate_queries tp y))
    \<and> [] \<notin> set (map snd (generate_queries tp y))
    \<and> (\<forall>tp' y'. tp' = tp \<and> y' = y \<longrightarrow> generate_queries tp' y' = generate_queries tp y)"
proof -
  have keys: "map fst (generate_queries tp y) = [py ''trend'', py ''problem'', py ''question'']"
    by (simp add: generate_queries_def)
  have len: "length (generate_queries tp y) = 3"
    by (simp add: generate_queries_def)
  have dist: "distinct (map snd (generate_queries tp y))"
    using trend_neq_problem [of tp y] trend_neq_question [of tp y] problem_neq_question [of tp]
    by (simp add: generate_queries_def)
  have nonempty: "[] \<notin> set (map snd (generate_queries tp y))"
    by (simp add: generate_queries_def)
  show ?thesis using keys len dist nonempty by blast
qed

theorem generate_queries_three_distinct_witness:
  "py ''ai'' \<noteq> []
   \<and> map fst (generate_queries (py ''ai'') 2026) = [py ''trend'', py ''problem'', py ''question'']
   \<and> distinct (map snd (generate_queries (py ''ai'') 2026))
   \<and> map_of (generate_queries (py ''ai'') 2026) (py ''trend'') =
       Some (py ''ai latest trends news 2026'')"
proof -
  have h: "py ''ai'' \<noteq> []" by simp
  have y: "str_int 2026 = py ''2026''" by (simp add: str_int_def str_nat.simps)
  show ?thesis
    using h generate_queries_three_distinct [OF h, of 2026]
    by (simp add: generate_queries_def y)
qed

section \<open>Aggregator: the loop and the handler\<close>






lemma snd_execute_search:
  "snd (execute_search self q m h) = h @ [Search q (py ''advanced'') m False]"
  by (simp add: execute_search_def)

lemma snd_analyze_with_llm:
  "snd (analyze_with_llm self cont tp h) = h @ [GenerateContent (model self) (llm_prompt cont tp)]"
  by (simp add: analyze_with_llm_def)

section \<open>Content Normalizer: the loops against the specification's wording\<close>

lemma append_entries_eq:
  "append_entries label (enumerate rs n) acc =
   acc @ concat (map (\<lambda>k. spec_entry label (n + k) (rs ! k)) [0..<length rs])"
proof (induction rs arbitrary: n acc)
  case Nil
  then show ?case by simp
next
  case (Cons r rs)
  have "[0..<length (r # rs)] = 0 # map Suc [0..<length rs]"
    by (simp add: upt_conv_Cons map_Suc_upt del: upt_Suc)
  then show ?case
    by (simp add: Cons.IH spec_entry_def comp_def)
qed

lemma prepare_content_eq_spec: "prepare_content_for_analysis data = spec_normalize data"
  by (simp add: prepare_content_for_analysis_def spec_normalize_def spec_section_def
      append_entries_eq Let_def)

lemma prepare_content_cong:
  "trend_results d = trend_results d' \<Longrightarrow> problem_results d = problem_results d' \<Longrightarrow>
   question_results d = question_results d' \<Longrightarrow>
   prepare_content_for_analysis d = prepare_content_for_analysis d'"
  by (simp add: prepare_content_for_analysis_def)


section \<open>The pipeline: what a run returns\<close>


lemma getitem_queries:
  assumes "generate_queries tp y =
      [(py ''trend'', q1), (py ''problem'', q2), (py ''question'', q3)]"
  shows "getitem (generate_queries tp y) (py ''trend'') = Inr q1"
    and "getitem (generate_queries tp y) (py ''problem'') = Inr q2"
    and "getitem (generate_queries tp y) (py ''question'') = Inr q3"
  by (simp_all add: assms getitem_def)

lemma research_eq:
  fixes self :: "'f::zero ResearchAgent" and tp ts q1 q2 q3 :: pystr and m y :: int
    and h :: "request list" and sf :: bool
  assumes q: "generate_queries tp y =
      [(py ''trend'', q1), (py ''problem'', q2), (py ''question'', q3)]"
  defines "h1 \<equiv> h @ [Search q1 (py ''advanced'') m False]"
  defines "h2 \<equiv> h1 @ [Search q2 (py ''advanced'') m False]"
  defines "h3 \<equiv> h2 @ [Search q3 (py ''advanced'') m False]"
  defines "d3 \<equiv> \<lparr>topic = tp, timestamp = ts,
      trend_results = fst (execute_search self q1 m h),
      problem_results = fst (execute_search self q2 m h1),
      question_results = fst (execute_search self q3 m h2),
      analysis = [], raw_data = []\<rparr>"
  defines "c \<equiv> prepare_content_for_analysis d3"
  defines "d4 \<equiv> (if strip c = [] then d3\<lparr>analysis := insufficient_data\<rparr>
      else d3\<lparr>analysis := fst (analyze_with_llm self c tp h3)\<rparr>)"
  shows "research self tp m sf ts y h =
    Inr \<lparr>run_data = d4,
         run_requests = (if strip c = [] then h3
                         else h3 @ [GenerateContent (model self) (llm_prompt c tp)]),
         run_files = (if sf then Some (report_content d4, json_data self d4) else None)\<rparr>"
  unfolding research_def Let_def getitem_queries [OF q]
  by (simp add: split_beta snd_execute_search snd_analyze_with_llm
      h1_def h2_def h3_def d3_def c_def d4_def)

text \<open>
  Every run returns: no exception leaves \<open>research\<close>. The record it returns holds the
  results of the three searches, issued in the order trend, problem, question, and the
  analysis of one of the two branches.
\<close>

lemma research_run:
  fixes self :: "'f::zero ResearchAgent" and tp ts q1 q2 q3 :: pystr and m y :: int
    and h :: "request list" and sf :: bool
  assumes q: "generate_queries tp y =
      [(py ''trend'', q1), (py ''problem'', q2), (py ''question'', q3)]"
  defines "s1 \<equiv> Search q1 (py ''advanced'') m False"
  defines "s2 \<equiv> Search q2 (py ''advanced'') m False"
  defines "s3 \<equiv> Search q3 (py ''advanced'') m False"
  shows "\<exists>r. research self tp m sf ts y h = Inr r
     \<and> topic (run_data r) = tp \<and> timestamp (run_data r) = ts \<and> raw_data (run_data r) = []
     \<and> trend_results (run_data r) = fst (execute_search self q1 m h)
     \<and> problem_results (run_data r) = fst (execute_search self q2 m (h @ [s1]))
     \<and> question_results (run_data r) = fst (execute_search self q3 m (h @ [s1, s2]))
     \<and> (strip (prepare_content_for_analysis (run_data r)) = [] \<longrightarrow>
          analysis (run_data r) = insufficient_data \<and> run_requests r = h @ [s1, s2, s3])
     \<and> (strip (prepare_content_for_analysis (run_data r)) \<noteq> [] \<longrightarrow>
          analysis (run_data r) =
            fst (analyze_with_llm self (prepare_content_for_analysis (run_data r)) tp
                   (h @ [s1, s2, s3])) \<and>
          run_requests r =
            h @ [s1, s2, s3] @
            [GenerateContent (model self)
               (llm_prompt (prepare_content_for_analysis (run_data r)) tp)])
     \<and> run_files r =
         (if sf then Some (report_content (run_data r), json_data self (run_data r))
          else None)"
proof -
  let ?d3 = "\<lparr>topic = tp, timestamp = ts,
      trend_results = fst (execute_search self q1 m h),
      problem_results = fst (execute_search self q2 m (h @ [Search q1 (py ''advanced'') m False])),
      question_results = fst (execute_search self q3 m
         ((h @ [Search q1 (py ''advanced'') m False]) @ [Search q2 (py ''advanced'') m False])),
      analysis = [], raw_data = []\<rparr>"
  let ?c = "prepare_content_for_analysis ?d3"
  have c1: "prepare_content_for_analysis (?d3\<lparr>analysis := a\<rparr>) = ?c"
    for a by (rule prepare_content_cong) simp_all
  note c2 = c1 [of insufficient_data, simplified]
    c1 [of "fst (analyze_with_llm self ?c tp
      (((h @ [Search q1 (py ''advanced'') m False]) @ [Search q2 (py ''advanced'') m False]) @
       [Search q3 (py ''advanced'') m False]))", simplified]
  show ?thesis
    unfolding research_eq [OF q] s1_def s2_def s3_def
    by (simp add: c2)
qed

section \<open>The concrete runs\<close>



lemma scenario_llm:
  "fst (analyze_with_llm scenario_agent cont tp h) = py ''four sections''"
  by (simp add: analyze_with_llm_def analyze_with_llm_try_def scenario_agent_def strip_def
      isspace_def)


section \<open>Aggregator: failure of a search, order of the results\<close>







section \<open>Synthesizer: failure of the LLM Provider, and the blank content\<close>

text \<open>
  Claim C2. For every content, every topic and every history of earlier calls: if the
  LLM Provider call raises, \<open>_analyze_with_llm\<close> returns a string (no exception leaves
  it) that is the fixed error prefix followed by \<open>str(e)\<close> of the exception raised; the
  string is not empty and holds the description of the failure.
\<close>

theorem llm_failure_becomes_message:
  assumes "gemini_client self h (model self) (llm_prompt cont tp) = Raises e"
  shows "analyze_with_llm self cont tp h =
      (py ''Analiz s'' @ [0x131] @ py ''ras'' @ [0x131] @ py ''nda bir hata olu'' @ [0x15F] @
       py ''tu: '' @ exc_str e,
       h @ [GenerateContent (model self) (llm_prompt cont tp)])
    \<and> fst (analyze_with_llm self cont tp h) \<noteq> []
    \<and> (\<exists>pre. fst (analyze_with_llm self cont tp h) = pre @ exc_str e)"
  using assms by (simp add: analyze_with_llm_def analyze_with_llm_try_def)

theorem llm_failure_becomes_message_witness:
  "gemini_client offline_agent [] (model offline_agent)
     (llm_prompt (py ''some content'') (py ''home coffee roasting'')) =
     Raises (PyException (py ''ResourceExhausted'') (py ''quota exceeded''))
   \<and> fst (analyze_with_llm offline_agent (py ''some content'') (py ''home coffee roasting'') []) =
      py ''Analiz s'' @ [0x131] @ py ''ras'' @ [0x131] @ py ''nda bir hata olu'' @ [0x15F] @
      py ''tu: quota exceeded''"
proof -
  have raises: "gemini_client offline_agent [] (model offline_agent)
     (llm_prompt (py ''some content'') (py ''home coffee roasting'')) =
     Raises (PyException (py ''ResourceExhausted'') (py ''quota exceeded''))"
    by (simp add: offline_agent_def)
  show ?thesis using raises llm_failure_becomes_message [OF raises] by simp
qed






section \<open>Content Normalizer: the text\<close>

text \<open>
  Claim C6. For every record, the text that \<open>_prepare_content_for_analysis\<close> builds is
  the text of the specification's description: the trend, the problem and the question
  section in this order, joined by newlines, a section being its header followed by one
  entry per result (the 1-based index, the title, the source URL, the content, in this
  order) and being absent, header and body, when its bucket is empty. With three empty
  buckets the text is the empty string.
\<close>

theorem prepare_content_refines_spec:
  "prepare_content_for_analysis data = spec_normalize data
   \<and> (trend_results data = [] \<and> problem_results data = [] \<and> question_results data = [] \<longrightarrow>
        prepare_content_for_analysis data = [])"
  by (simp add: prepare_content_eq_spec spec_normalize_def spec_section_def)

theorem prepare_content_refines_spec_witness:
  "trend_results empty_data = [] \<and> problem_results empty_data = []
   \<and> question_results empty_data = []
   \<and> prepare_content_for_analysis empty_data = []
   \<and> prepare_content_for_analysis example_data =
      py ''=== TREND VE HABER SONU'' @ [0xC7] @ py ''LARI ==='' @ [10] @
      [10] @ py ''[Trend 1] Roasting in 2026'' @ [10] @
      py ''Kaynak: https://a.example/1'' @ [10] @
      [0x130, 0xE7] @ py ''erik: New roasters'' @ [10] @ [10] @
      [10] @ py ''[Trend 2] Bean prices'' @ [10] @
      py ''Kaynak: https://a.example/2'' @ [10] @
      [0x130, 0xE7] @ py ''erik: '' @ [10] @ [10] @
      [10] @ py ''=== SORU VE '' @ [0xC7, 0xD6] @ py ''Z'' @ [0xDC] @ py ''M ARAMA SONU'' @
      [0xC7] @ py ''LARI ==='' @ [10] @
      [10] @ py ''[Soru 1] Fix uneven roast'' @ [10] @
      py ''Kaynak: https://b.example/1'' @ [10] @
      [0x130, 0xE7] @ py ''erik: Stir more'' @ [10]"
proof -
  have empty: "trend_results empty_data = [] \<and> problem_results empty_data = []
      \<and> question_results empty_data = []"
    by (simp add: empty_data_def)
  with prepare_content_refines_spec [of empty_data]
  have "prepare_content_for_analysis empty_data = []" by blast
  moreover from prepare_content_refines_spec [of example_data]
  have "prepare_content_for_analysis example_data = spec_normalize example_data" by blast
  then have "prepare_content_for_analysis example_data =
      py ''=== TREND VE HABER SONU'' @ [0xC7] @ py ''LARI ==='' @ [10] @
      [10] @ py ''[Trend 1] Roasting in 2026'' @ [10] @
      py ''Kaynak: https://a.example/1'' @ [10] @
      [0x130, 0xE7] @ py ''erik: New roasters'' @ [10] @ [10] @
      [10] @ py ''[Trend 2] Bean prices'' @ [10] @
      py ''Kaynak: https://a.example/2'' @ [10] @
      [0x130, 0xE7] @ py ''erik: '' @ [10] @ [10] @
      [10] @ py ''=== SORU VE '' @ [0xC7, 0xD6] @ py ''Z'' @ [0xDC] @ py ''M ARAMA SONU'' @
      [0xC7] @ py ''LARI ==='' @ [10] @
      [10] @ py ''[Soru 1] Fix uneven roast'' @ [10] @
      py ''Kaynak: https://b.example/1'' @ [10] @
      [0x130, 0xE7] @ py ''erik: Stir more'' @ [10]"
    by (simp add: spec_normalize_def spec_section_def spec_entry_def example_data_def
        str_nat.simps upt_conv_Cons)
  ultimately show ?thesis using empty by blast
qed


section \<open>Report Assembler: the two forms\<close>

lemma append_links_eq:
  "append_links rs acc =
   acc @ map (\<lambda>r. py ''- ['' @ title r @ py '']('' @ url r @ py '')'') rs"
  by (induction rs arbitrary: acc) simp_all

lemma asdict_inject: "asdict r = asdict r' \<Longrightarrow> r = r'"
  by (cases r, cases r') (simp add: asdict_def)

lemma map_asdict_inject: "map asdict rs = map asdict rs' \<Longrightarrow> rs = rs'"
proof -
  assume eq: "map asdict rs = map asdict rs'"
  have "inj (asdict :: 'a SearchResult \<Rightarrow> 'a json)"
    by (rule injI) (rule asdict_inject)
  with eq show ?thesis by (simp add: inj_map_eq_map)
qed

text \<open>
  Claim C7. For every record, whatever the sizes of its buckets, the statistics table of
  the document form holds the three bucket lengths and, in its total row, their sum; and
  the metadata block of the data form holds the same sum under \<open>total_results\<close>.
\<close>

theorem grand_total_is_sum:
  "(\<exists>pre post. report_content data = pre @
      (py ''| Trend Sonu'' @ [0xE7] @ py ''lar'' @ [0x131] @ py '' | '' @
       str_nat (length (trend_results data)) @
       py '' |'' @ [10] @
       py ''| Sorun/'' @ [0x15E] @ py ''ikayet Sonu'' @ [0xE7] @ py ''lar'' @ [0x131] @ py '' | '' @
       str_nat (length (problem_results data)) @
       py '' |'' @ [10] @
       py ''| Soru/'' @ [0xC7, 0xF6] @ py ''z'' @ [0xFC] @ py ''m Sonu'' @ [0xE7] @ py ''lar'' @
       [0x131] @ py '' | '' @
       str_nat (length (question_results data)) @
       py '' |'' @ [10] @
       py ''| **Toplam** | **'' @
       str_nat (length (trend_results data) + length (problem_results data) +
                length (question_results data)) @
       py ''** |'' @ [10]) @ post)
   \<and> Option.bind (jfield (json_data self data) (py ''metadata''))
        (\<lambda>md. jfield md (py ''total_results'')) =
      Some (JInt (int (length (trend_results data) + length (problem_results data) +
                       length (question_results data))))"
proof
  show "\<exists>pre post. report_content data = pre @
      (py ''| Trend Sonu'' @ [0xE7] @ py ''lar'' @ [0x131] @ py '' | '' @
       str_nat (length (trend_results data)) @
       py '' |'' @ [10] @
       py ''| Sorun/'' @ [0x15E] @ py ''ikayet Sonu'' @ [0xE7] @ py ''lar'' @ [0x131] @ py '' | '' @
       str_nat (length (problem_results data)) @
       py '' |'' @ [10] @
       py ''| Soru/'' @ [0xC7, 0xF6] @ py ''z'' @ [0xFC] @ py ''m Sonu'' @ [0xE7] @ py ''lar'' @
       [0x131] @ py '' | '' @
       str_nat (length (question_results data)) @
       py '' |'' @ [10] @
       py ''| **Toplam** | **'' @
       str_nat (length (trend_results data) + length (problem_results data) +
                length (question_results data)) @
       py ''** |'' @ [10]) @ post"
    unfolding report_content_def
    by (((rule occurs_here, simp only: append_assoc, rule exI, rule refl) | rule occurs_skip)+)
next
  show "Option.bind (jfield (json_data self data) (py ''metadata''))
        (\<lambda>md. jfield md (py ''total_results'')) =
      Some (JInt (int (length (trend_results data) + length (problem_results data) +
                       length (question_results data))))"
    by (simp add: json_data_def)
qed

theorem grand_total_is_sum_witness:
  "(\<exists>pre post. report_content example_data = pre @
      (py ''| Trend Sonu'' @ [0xE7] @ py ''lar'' @ [0x131] @ py '' | 2 |'' @ [10] @
       py ''| Sorun/'' @ [0x15E] @ py ''ikayet Sonu'' @ [0xE7] @ py ''lar'' @ [0x131] @
       py '' | 0 |'' @ [10] @
       py ''| Soru/'' @ [0xC7, 0xF6] @ py ''z'' @ [0xFC] @ py ''m Sonu'' @ [0xE7] @ py ''lar'' @
       [0x131] @ py '' | 1 |'' @ [10] @
       py ''| **Toplam** | **3** |'' @ [10]) @ post)
   \<and> Option.bind (jfield (json_data scenario_agent example_data) (py ''metadata''))
        (\<lambda>md. jfield md (py ''total_results'')) = Some (JInt 3)
   \<and> Option.bind (jfield (json_data scenario_agent empty_data) (py ''metadata''))
        (\<lambda>md. jfield md (py ''total_results'')) = Some (JInt 0)"
proof -
  have len: "length (trend_results example_data) = 2" "length (problem_results example_data) = 0"
    "length (question_results example_data) = 1"
    "length (trend_results empty_data) = 0" "length (problem_results empty_data) = 0"
    "length (question_results empty_data) = 0"
    by (simp_all add: example_data_def empty_data_def)
  have digits: "str_nat 0 = py ''0''" "str_nat (Suc 0) = py ''1''" "str_nat 2 = py ''2''"
    "str_nat 3 = py ''3''"
    by (simp_all add: str_nat.simps)
  from grand_total_is_sum [of example_data scenario_agent]
    grand_total_is_sum [of empty_data scenario_agent]
  show ?thesis
    unfolding len by (simp add: digits)
qed


text \<open>
  Claim C8. \<open>_format_url_list\<close> renders an empty bucket as the fixed placeholder line,
  which is not the empty text, and a bucket with results as one link line per result,
  the title as link text and the URL as target, in the order of the bucket, the lines
  joined by newlines. The document form holds, under the headings of the three link
  sections, the rendering of the trend, the problem and the question bucket.
\<close>

theorem url_list_placeholder_or_links:
  "format_url_list ([] :: 'f SearchResult list) =
     py ''- Sonu'' @ [0xE7] @ py '' bulunamad'' @ [0x131]
   \<and> format_url_list ([] :: 'f SearchResult list) \<noteq> []
   \<and> (rs \<noteq> [] \<longrightarrow>
        format_url_list rs =
          join [10] (map (\<lambda>r. py ''- ['' @ title r @ py '']('' @ url r @ py '')'') rs))
   \<and> (\<exists>pre post. report_content data = pre @
        (py ''### Trend Kaynaklar'' @ [0x131] @ [10] @
         format_url_list (trend_results data) @
         [10] @
         [10] @
         py ''### Sorun/'' @ [0x15E] @ py ''ikayet Kaynaklar'' @ [0x131] @ [10] @
         format_url_list (problem_results data) @
         [10] @
         [10] @
         py ''### Soru/'' @ [0xC7, 0xF6] @ py ''z'' @ [0xFC] @ py ''m Kaynaklar'' @ [0x131] @ [10] @
         format_url_list (question_results data) @
         [10]) @ post)"
proof -
  have doc: "\<exists>pre post. report_content data = pre @
        (py ''### Trend Kaynaklar'' @ [0x131] @ [10] @
         format_url_list (trend_results data) @
         [10] @
         [10] @
         py ''### Sorun/'' @ [0x15E] @ py ''ikayet Kaynaklar'' @ [0x131] @ [10] @
         format_url_list (problem_results data) @
         [10] @
         [10] @
         py ''### Soru/'' @ [0xC7, 0xF6] @ py ''z'' @ [0xFC] @ py ''m Kaynaklar'' @ [0x131] @ [10] @
         format_url_list (question_results data) @
         [10]) @ post"
    unfolding report_content_def
    by (((rule occurs_here, simp only: append_assoc, rule exI, rule refl) | rule occurs_skip)+)
  have links: "rs \<noteq> [] \<longrightarrow> format_url_list rs =
          join [10] (map (\<lambda>r. py ''- ['' @ title r @ py '']('' @ url r @ py '')'') rs)"
    by (simp add: format_url_list_def append_links_eq)
  have empty: "format_url_list ([] :: 'f SearchResult list) =
      py ''- Sonu'' @ [0xE7] @ py '' bulunamad'' @ [0x131]"
    by (simp add: format_url_list_def)
  have "format_url_list ([] :: 'f SearchResult list) \<noteq> []"
    by (simp add: format_url_list_def)
  with doc links empty show ?thesis by blast
qed

theorem url_list_placeholder_or_links_witness:
  "trend_results example_data \<noteq> []
   \<and> format_url_list (trend_results example_data) =
      py ''- [Roasting in 2026](https://a.example/1)'' @ [10] @
      py ''- [Bean prices](https://a.example/2)''
   \<and> problem_results example_data = []
   \<and> format_url_list (problem_results example_data) =
      py ''- Sonu'' @ [0xE7] @ py '' bulunamad'' @ [0x131]"
proof -
  have t: "trend_results example_data \<noteq> []" and p: "problem_results example_data = []"
    by (simp_all add: example_data_def)
  note inst = url_list_placeholder_or_links [of "trend_results example_data" example_data,
      where ?'f = real]
  from inst t have "format_url_list (trend_results example_data) =
      join [10] (map (\<lambda>r. py ''- ['' @ title r @ py '']('' @ url r @ py '')'')
        (trend_results example_data))"
    by blast
  then have "format_url_list (trend_results example_data) =
      py ''- [Roasting in 2026](https://a.example/1)'' @ [10] @
      py ''- [Bean prices](https://a.example/2)''"
    by (simp add: example_data_def)
  moreover from inst p have "format_url_list (problem_results example_data) =
      py ''- Sonu'' @ [0xE7] @ py '' bulunamad'' @ [0x131]"
    by simp
  ultimately show ?thesis using t p by blast
qed

text \<open>
  Claim C4, as stated, fails: the data form does not hold the record's free-form metadata
  map. Two records that differ in \<open>raw_data\<close> only have the same data form, and the data
  form has no \<open>raw_data\<close> key.
\<close>

theorem data_form_omits_raw_data:
  "example_data\<lparr>raw_data := [(py ''source'', JString (py ''manual''))]\<rparr> \<noteq> example_data
   \<and> json_data scenario_agent
        (example_data\<lparr>raw_data := [(py ''source'', JString (py ''manual''))]\<rparr>) =
      json_data scenario_agent example_data
   \<and> jfield (json_data scenario_agent
        (example_data\<lparr>raw_data := [(py ''source'', JString (py ''manual''))]\<rparr>))
        (py ''raw_data'') = None"
proof -
  have "raw_data (example_data\<lparr>raw_data := [(py ''source'', JString (py ''manual''))]\<rparr>) \<noteq>
      raw_data example_data"
    by (simp add: example_data_def)
  then have "example_data\<lparr>raw_data := [(py ''source'', JString (py ''manual''))]\<rparr> \<noteq>
      example_data"
    by metis
  then show ?thesis by (simp add: json_data_def)
qed

text \<open>
  Claim C4, amended. For every record, the data form holds the topic, the timestamp, the
  three result lists (each result as the object of its title, URL, content and score, in
  the order of the bucket), the analysis, and a metadata block with the model identifier
  in use and the total number of results; a result is determined by its object, so the
  data form determines these fields of the record and the model. The free-form metadata
  map \<open>raw_data\<close> of the record is not part of the data form.
\<close>

theorem data_form_mirrors_fields:
  "jfield (json_data self data) (py ''topic'') = Some (JString (topic data))
   \<and> jfield (json_data self data) (py ''timestamp'') = Some (JString (timestamp data))
   \<and> jfield (json_data self data) (py ''trend_results'') =
       Some (JArray (map asdict (trend_results data)))
   \<and> jfield (json_data self data) (py ''problem_results'') =
       Some (JArray (map asdict (problem_results data)))
   \<and> jfield (json_data self data) (py ''question_results'') =
       Some (JArray (map asdict (question_results data)))
   \<and> jfield (json_data self data) (py ''analysis'') = Some (JString (analysis data))
   \<and> jfield (json_data self data) (py ''metadata'') =
       Some (JObject
         [(py ''model_used'', JString (model self)),
          (py ''total_results'',
             JInt (int (length (trend_results data) + length (problem_results data) +
                        length (question_results data))))])
   \<and> jfield (json_data self data) (py ''raw_data'') = None
   \<and> (\<forall>r. asdict r =
         JObject [(py ''title'', JString (title r)), (py ''url'', JString (url r)),
                  (py ''content'', JString (content r)), (py ''score'', JFloat (score r))])
   \<and> (json_data self data = json_data self' data' \<longrightarrow>
        topic data = topic data' \<and> timestamp data = timestamp data' \<and>
        trend_results data = trend_results data' \<and>
        problem_results data = problem_results data' \<and>
        question_results data = question_results data' \<and>
        analysis data = analysis data' \<and> model self = model self')"
proof -
  have fields: "jfield (json_data self data) (py ''topic'') = Some (JString (topic data))"
    "jfield (json_data self data) (py ''timestamp'') = Some (JString (timestamp data))"
    "jfield (json_data self data) (py ''trend_results'') =
       Some (JArray (map asdict (trend_results data)))"
    "jfield (json_data self data) (py ''problem_results'') =
       Some (JArray (map asdict (problem_results data)))"
    "jfield (json_data self data) (py ''question_results'') =
       Some (JArray (map asdict (question_results data)))"
    "jfield (json_data self data) (py ''analysis'') = Some (JString (analysis data))"
    "jfield (json_data self data) (py ''metadata'') =
       Some (JObject
         [(py ''model_used'', JString (model self)),
          (py ''total_results'',
             JInt (int (length (trend_results data) + length (problem_results data) +
                        length (question_results data))))])"
    "jfield (json_data self data) (py ''raw_data'') = None"
    by (simp_all add: json_data_def)
  have inj: "json_data self data = json_data self' data' \<longrightarrow>
        topic data = topic data' \<and> timestamp data = timestamp data' \<and>
        trend_results data = trend_results data' \<and>
        problem_results data = problem_results data' \<and>
        question_results data = question_results data' \<and>
        analysis data = analysis data' \<and> model self = model self'"
    by (auto simp: json_data_def dest: map_asdict_inject)
  show ?thesis using fields inj by (simp add: asdict_def)
qed

theorem data_form_mirrors_fields_witness:
  "json_data scenario_agent example_data =
     json_data offline_agent
       (example_data\<lparr>raw_data := [(py ''source'', JString (py ''manual''))]\<rparr>)
   \<and> trend_results (example_data\<lparr>raw_data := [(py ''source'', JString (py ''manual''))]\<rparr>) =
      trend_results example_data
   \<and> model offline_agent = model scenario_agent
   \<and> jfield (json_data scenario_agent example_data) (py ''analysis'') =
      Some (JString (py ''four sections''))"
proof -
  have eq: "json_data scenario_agent example_data =
     json_data offline_agent
       (example_data\<lparr>raw_data := [(py ''source'', JString (py ''manual''))]\<rparr>)"
    by (simp add: json_data_def scenario_agent_def offline_agent_def)
  note inst = data_form_mirrors_fields [of scenario_agent example_data offline_agent
      "example_data\<lparr>raw_data := [(py ''source'', JString (py ''manual''))]\<rparr>"]
  from inst eq have "trend_results example_data =
      trend_results (example_data\<lparr>raw_data := [(py ''source'', JString (py ''manual''))]\<rparr>)"
    and "model scenario_agent = model offline_agent"
    by blast+
  moreover from inst have "jfield (json_data scenario_agent example_data) (py ''analysis'') =
      Some (JString (analysis example_data))"
    by blast
  then have "jfield (json_data scenario_agent example_data) (py ''analysis'') =
      Some (JString (py ''four sections''))"
    by (simp add: example_data_def)
  ultimately show ?thesis using eq by simp
qed

end
